theory Spec2Isabelle
  imports Main
begin

section \<open>The realtime channel: \<open>WebSocketService.ts\<close>\<close>

text \<open>
  The service is a class with mutable fields, driven by the JavaScript event loop: every
  method body and every handler runs to completion (up to its next \<open>await\<close>) before
  any other handler starts. Each such run is modelled as a function from the fields before
  to the fields after, together with the list of effects it had on the outside world
  (console output, frames sent, timers set, listeners called) and a flag telling whether
  an exception left the run.
\<close>

subsection \<open>Data\<close>

datatype json =
    JNull
  | JBool bool
  | JNum int
  | JStr string
  | JArr "json list"
  | JObj "(string \<times> json) list"

text \<open>\<open>interface WebSocketMessage { type: string; data: any }\<close>; the heartbeat frame
  \<open>{ type: 'ping' }\<close> carries no \<open>data\<close>, hence the option.\<close>

record WebSocketMessage =
  msg_type :: string
  msg_data :: "json option"

text \<open>The message object as a listener of the \<open>'message'\<close> event receives it.\<close>

definition message_json :: "WebSocketMessage \<Rightarrow> json" where
  "message_json m =
     JObj ((''type'', JStr (msg_type m)) #
           (case msg_data m of None \<Rightarrow> [] | Some d \<Rightarrow> [(''data'', d)]))"

text \<open>\<open>message.data\<close> as an argument: \<open>undefined\<close> when the field is absent.\<close>

definition data_arg :: "WebSocketMessage \<Rightarrow> json list" where
  "data_arg m = (case msg_data m of None \<Rightarrow> [] | Some d \<Rightarrow> [d])"

datatype readyState = CONNECTING | OPEN | CLOSING | CLOSED

record WebSocket =
  ws_url :: string
  ws_readyState :: readyState

text \<open>
  A registered callback: an identity, to tell in the effects which callback ran, and its
  behaviour as far as the service can see it, namely whether it raises on given arguments.
\<close>

record listener =
  cb_id :: nat
  cb_raises :: "json list \<Rightarrow> bool"

datatype effect =
    ConsoleLog string
  | ConsoleWarn string
  | ConsoleError string
  | NewWebSocket string
  | WsSend WebSocketMessage
  | WsClose
  | SetTimeout nat
  | SetInterval nat
  | ClearInterval
  | Emit string "json list"
  | Invoke string nat "json list"

text \<open>
  The fields of \<open>class WebSocketService extends EventEmitter\<close>. \<open>events\<close> is the
  listener table of the \<open>EventEmitter\<close> base class, in registration order.
\<close>

record WebSocketService =
  ws :: "WebSocket option"
  reconnectAttempts :: nat
  maxReconnectAttempts :: nat
  reconnectInterval :: nat
  isConnecting :: bool
  shouldReconnect :: bool
  heartbeatInterval :: "unit option"
  baseUrl :: string
  events :: "(string \<times> listener) list"

text \<open>The field initialisers and the constructor.\<close>

definition new_WebSocketService :: WebSocketService where
  "new_WebSocketService =
     \<lparr> ws = None, reconnectAttempts = 0, maxReconnectAttempts = 5,
       reconnectInterval = 1000, isConnecting = False, shouldReconnect = True,
       heartbeatInterval = None, baseUrl = ''ws://192.168.1.100:8000'', events = [] \<rparr>"

type_synonym run = "WebSocketService \<times> effect list \<times> bool"

subsection \<open>The \<open>EventEmitter\<close> base class\<close>

text \<open>
  The base class is that of the \<open>events\<close> package, which is not part of the repository;
  \<open>on\<close> and \<open>emit\<close> follow the behaviour the package documents.
  \<open>on\<close> appends to the listeners of an event. \<open>emit\<close> calls the listeners of the event
  synchronously, in registration order, with no \<open>try\<close> around a call: the first listener
  that raises ends the loop and its exception leaves \<open>emit\<close>. Emitting \<open>'error'\<close> with
  no listener for it raises.
\<close>

definition on :: "string \<Rightarrow> listener \<Rightarrow> WebSocketService \<Rightarrow> WebSocketService" where
  "on ev l s = s\<lparr>events := events s @ [(ev, l)]\<rparr>"

definition listenersOf :: "string \<Rightarrow> WebSocketService \<Rightarrow> listener list" where
  "listenersOf ev s = map snd (filter (\<lambda>p. fst p = ev) (events s))"

fun callListeners :: "string \<Rightarrow> listener list \<Rightarrow> json list \<Rightarrow> effect list \<times> bool" where
  "callListeners ev [] args = ([], False)"
| "callListeners ev (l # ls) args =
     (if cb_raises l args then ([Invoke ev (cb_id l) args], True)
      else (case callListeners ev ls args of
              (es, thrown) \<Rightarrow> (Invoke ev (cb_id l) args # es, thrown)))"

definition emit :: "string \<Rightarrow> json list \<Rightarrow> WebSocketService \<Rightarrow> effect list \<times> bool" where
  "emit ev args s =
     (if ev = ''error'' \<and> listenersOf ''error'' s = [] then ([Emit ev args], True)
      else (case callListeners ev (listenersOf ev s) args of
              (es, thrown) \<Rightarrow> (Emit ev args # es, thrown)))"

subsection \<open>Sending and the heartbeat\<close>

definition ws_open :: "WebSocketService \<Rightarrow> bool" where
  "ws_open s = (case ws s of None \<Rightarrow> False | Some w \<Rightarrow> ws_readyState w = OPEN)"

definition sendMessage :: "WebSocketMessage \<Rightarrow> WebSocketService \<Rightarrow> run" where
  "sendMessage message s =
     (if ws_open s then (s, [WsSend message], False)
      else (s, [ConsoleWarn ''WebSocket is not connected, cannot send message''], False))"

definition stopHeartbeat :: "WebSocketService \<Rightarrow> WebSocketService \<times> effect list" where
  "stopHeartbeat s =
     (case heartbeatInterval s of
        Some t \<Rightarrow> (s\<lparr>heartbeatInterval := None\<rparr>, [ClearInterval])
      | None \<Rightarrow> (s, []))"

definition startHeartbeat :: "WebSocketService \<Rightarrow> WebSocketService \<times> effect list" where
  "startHeartbeat s =
     (case stopHeartbeat s of
        (s1, es) \<Rightarrow> (s1\<lparr>heartbeatInterval := Some ()\<rparr>, es @ [SetInterval 30000]))"

text \<open>The callback given to \<open>setInterval\<close>: one run per elapsed interval.\<close>

definition ping :: WebSocketMessage where
  "ping = \<lparr> msg_type = ''ping'', msg_data = None \<rparr>"

definition heartbeatTick :: "WebSocketService \<Rightarrow> run" where
  "heartbeatTick s = (if ws_open s then sendMessage ping s else (s, [], False))"

subsection \<open>Reconnecting\<close>

definition handleReconnect :: "WebSocketService \<Rightarrow> run" where
  "handleReconnect s =
     (if reconnectAttempts s \<ge> maxReconnectAttempts s then
        (case emit ''max_reconnect_attempts_reached'' [] s of
           (es, thrown) \<Rightarrow>
             (s, ConsoleError ''Max reconnection attempts reached'' # es, thrown))
      else
        (let s1 = s\<lparr>reconnectAttempts := reconnectAttempts s + 1\<rparr>;
             delay = reconnectInterval s1 * 2 ^ (reconnectAttempts s1 - 1)
         in (s1, [ConsoleLog ''Attempting to reconnect'', SetTimeout delay], False)))"

text \<open>The callback given to \<open>setTimeout\<close> runs \<open>connect\<close>, defined below, when
  \<open>shouldReconnect\<close> still holds.\<close>

subsection \<open>Connecting\<close>

text \<open>
  \<open>connect\<close> is \<open>async\<close>: it runs up to \<open>await AsyncStorage.getItem('auth_token')\<close>,
  and is resumed with what the read settled with. Other handlers may run in between, so
  the two parts are separate functions. The \<open>try\<close> block also covers the \<open>WebSocket\<close>
  constructor; whether it raises is the second argument of the resumed part.
\<close>

datatype 'a awaited = Fulfilled 'a | Failed string

datatype connect_step = ConnectReturned | AwaitAuthToken

definition connect_start :: "WebSocketService \<Rightarrow> WebSocketService \<times> connect_step" where
  "connect_start s =
     (if isConnecting s \<or> ws_open s then (s, ConnectReturned)
      else (s\<lparr>isConnecting := True\<rparr>, AwaitAuthToken))"

definition connect_catch :: "WebSocketService \<Rightarrow> run" where
  "connect_catch s =
     (case handleReconnect (s\<lparr>isConnecting := False\<rparr>) of
        (s1, es, thrown) \<Rightarrow> (s1, ConsoleError ''WebSocket connection error:'' # es, thrown))"

definition connect_resume :: "string option awaited \<Rightarrow> bool \<Rightarrow> WebSocketService \<Rightarrow> run" where
  "connect_resume got ctor_raises s =
     (case got of
        Failed e \<Rightarrow> connect_catch s
      | Fulfilled token \<Rightarrow>
          (case token of
             None \<Rightarrow>
               (s\<lparr>isConnecting := False\<rparr>,
                [ConsoleWarn ''No auth token found, cannot connect to WebSocket''], False)
           | Some t \<Rightarrow>
               if t = [] then
                 (s\<lparr>isConnecting := False\<rparr>,
                  [ConsoleWarn ''No auth token found, cannot connect to WebSocket''], False)
               else
                 (let wsUrl = baseUrl s @ ''/ws/notifications/?token='' @ t in
                  if ctor_raises then
                    (case connect_catch s of
                       (s1, es, thrown) \<Rightarrow>
                         (s1, ConsoleLog ''Connecting to WebSocket:'' # es, thrown))
                  else
                    (s\<lparr>ws := Some \<lparr> ws_url = wsUrl, ws_readyState = CONNECTING \<rparr>\<rparr>,
                     [ConsoleLog ''Connecting to WebSocket:'', NewWebSocket wsUrl], False))))"

text \<open>A call of \<open>connect\<close> with nothing else running during its \<open>await\<close>.\<close>

definition connect :: "string option awaited \<Rightarrow> bool \<Rightarrow> WebSocketService \<Rightarrow> run" where
  "connect got ctor_raises s =
     (case connect_start s of
        (s1, ConnectReturned) \<Rightarrow> (s1, [], False)
      | (s1, AwaitAuthToken) \<Rightarrow> connect_resume got ctor_raises s1)"

definition reconnectTimer :: "string option awaited \<Rightarrow> bool \<Rightarrow> WebSocketService \<Rightarrow> run" where
  "reconnectTimer got ctor_raises s =
     (if shouldReconnect s then connect got ctor_raises s else (s, [], False))"

definition disconnect :: "WebSocketService \<Rightarrow> WebSocketService \<times> effect list" where
  "disconnect s =
     (case stopHeartbeat (s\<lparr>shouldReconnect := False\<rparr>) of
        (s1, es) \<Rightarrow>
          (case ws s1 of
             Some w \<Rightarrow> (s1\<lparr>ws := None\<rparr>, es @ [WsClose])
           | None \<Rightarrow> (s1, es)))"

subsection \<open>Inbound frames\<close>

text \<open>The six \<open>handle...\<close> methods: a console line, then \<open>emit\<close> of the category.\<close>

definition handleCategory :: "string \<Rightarrow> string \<Rightarrow> WebSocketMessage \<Rightarrow> WebSocketService \<Rightarrow> run" where
  "handleCategory line ev message s =
     (case emit ev (data_arg message) s of
        (es, thrown) \<Rightarrow> (s, ConsoleLog line # es, thrown))"

definition handleNotification :: "WebSocketMessage \<Rightarrow> WebSocketService \<Rightarrow> run" where
  "handleNotification = handleCategory ''New notification:'' ''notification''"

definition handleAttendanceUpdate :: "WebSocketMessage \<Rightarrow> WebSocketService \<Rightarrow> run" where
  "handleAttendanceUpdate = handleCategory ''Attendance update:'' ''attendance_update''"

definition handleLeaveUpdate :: "WebSocketMessage \<Rightarrow> WebSocketService \<Rightarrow> run" where
  "handleLeaveUpdate = handleCategory ''Leave update:'' ''leave_update''"

definition handleShiftUpdate :: "WebSocketMessage \<Rightarrow> WebSocketService \<Rightarrow> run" where
  "handleShiftUpdate = handleCategory ''Shift update:'' ''shift_update''"

definition handlePayrollUpdate :: "WebSocketMessage \<Rightarrow> WebSocketService \<Rightarrow> run" where
  "handlePayrollUpdate = handleCategory ''Payroll update:'' ''payroll_update''"

definition handleSystemMessage :: "WebSocketMessage \<Rightarrow> WebSocketService \<Rightarrow> run" where
  "handleSystemMessage = handleCategory ''System message:'' ''system_message''"

definition logged :: "run \<Rightarrow> run" where
  "logged r = (case r of (s, es, thrown) \<Rightarrow>
     (s, ConsoleLog ''Received WebSocket message:'' # es, thrown))"

definition handleMessage :: "WebSocketMessage \<Rightarrow> WebSocketService \<Rightarrow> run" where
  "handleMessage message s = logged
     (if msg_type message = ''notification'' then handleNotification message s
      else if msg_type message = ''attendance_update'' then handleAttendanceUpdate message s
      else if msg_type message = ''leave_update'' then handleLeaveUpdate message s
      else if msg_type message = ''shift_update'' then handleShiftUpdate message s
      else if msg_type message = ''payroll_update'' then handlePayrollUpdate message s
      else if msg_type message = ''system_message'' then handleSystemMessage message s
      else if msg_type message = ''pong'' then (s, [], False)
      else
        (case emit ''message'' [message_json message] s of
           (es, thrown) \<Rightarrow> (s, ConsoleWarn ''Unknown message type:'' # es, thrown)))"

subsection \<open>The handlers set on the socket\<close>

text \<open>
  The runtime changes \<open>readyState\<close> of the socket before it calls \<open>onopen\<close> or
  \<open>onclose\<close>; the service never assigns it. The handlers are arrow functions over the
  service, set on the socket object: they stay on a socket that \<open>disconnect\<close> or a later
  \<open>connect\<close> has taken out of \<open>this.ws\<close>, and an event of such a socket runs the
  handler on the fields of the service as they are then, with \<open>this.ws\<close> untouched.
\<close>

definition runtime_readyState :: "readyState \<Rightarrow> WebSocketService \<Rightarrow> WebSocketService" where
  "runtime_readyState r s = s\<lparr>ws := map_option (\<lambda>w. w\<lparr>ws_readyState := r\<rparr>) (ws s)\<rparr>"

definition onopen :: "WebSocketService \<Rightarrow> run" where
  "onopen s =
     (case startHeartbeat (s\<lparr>isConnecting := False, reconnectAttempts := 0\<rparr>) of
        (s1, es) \<Rightarrow>
          (case emit ''connected'' [] s1 of
             (es', thrown) \<Rightarrow> (s1, ConsoleLog ''WebSocket connected'' # es @ es', thrown)))"

text \<open>\<open>None\<close> is a frame on which \<open>JSON.parse\<close> raises; a parsed frame is taken to be
  an object with a string \<open>type\<close>, as \<open>WebSocketMessage\<close> declares. The \<open>try\<close> of
  \<open>onmessage\<close> also covers \<open>handleMessage\<close>, so an exception of a listener ends here.\<close>

definition onmessage :: "WebSocketMessage option \<Rightarrow> WebSocketService \<Rightarrow> run" where
  "onmessage parsed s =
     (case parsed of
        None \<Rightarrow> (s, [ConsoleError ''Error parsing WebSocket message:''], False)
      | Some message \<Rightarrow>
          (case handleMessage message s of
             (s1, es, thrown) \<Rightarrow>
               if thrown then (s1, es @ [ConsoleError ''Error parsing WebSocket message:''], False)
               else (s1, es, False)))"

definition onclose :: "nat \<Rightarrow> string \<Rightarrow> WebSocketService \<Rightarrow> run" where
  "onclose code reason s =
     (case stopHeartbeat (s\<lparr>isConnecting := False\<rparr>) of
        (s1, es) \<Rightarrow>
          (case emit ''disconnected''
                  [JObj [(''code'', JNum (int code)), (''reason'', JStr reason)]] s1 of
             (es', thrown) \<Rightarrow>
               if thrown then (s1, ConsoleLog ''WebSocket disconnected:'' # es @ es', True)
               else if shouldReconnect s1 then
                 (case handleReconnect s1 of
                    (s2, es'', thrown') \<Rightarrow>
                      (s2, ConsoleLog ''WebSocket disconnected:'' # es @ es' @ es'', thrown'))
               else (s1, ConsoleLog ''WebSocket disconnected:'' # es @ es', False)))"

definition onerror :: "json \<Rightarrow> WebSocketService \<Rightarrow> run" where
  "onerror err s =
     (case emit ''error'' [err] (s\<lparr>isConnecting := False\<rparr>) of
        (es, thrown) \<Rightarrow> (s\<lparr>isConnecting := False\<rparr>, ConsoleError ''WebSocket error:'' # es, thrown))"

text \<open>The heartbeat timer firing \<open>n\<close> times in a row, nothing else arriving in between;
  the effects of all the runs, in order.\<close>

fun heartbeatTicks :: "nat \<Rightarrow> WebSocketService \<Rightarrow> run" where
  "heartbeatTicks 0 s = (s, [], False)"
| "heartbeatTicks (Suc n) s =
     (case heartbeatTick s of
        (s1, es, thrown) \<Rightarrow>
          (case heartbeatTicks n s1 of
             (s2, es', thrown') \<Rightarrow> (s2, es @ es', thrown \<or> thrown')))"

section \<open>The request pipeline: \<open>ApiService.ts\<close>\<close>

text \<open>
  The response interceptor and \<open>logout\<close> are \<open>async\<close> functions. Each runs up to its
  next \<open>await\<close>, and is resumed when the awaited promise settles; runs of other
  handlers come in between. Every part between two \<open>await\<close>s is one function here, and
  the value it returns says where the function is suspended or how its promise settled.
  \<open>AsyncStorage\<close> is taken as a store whose reads and writes succeed; a read yields the
  stored value when the function is resumed, a write is done when the function is resumed.

  The interceptor is installed on the one axios instance \<open>this.api\<close>. Every request of
  the service is made through that instance, the refresh request and the logout request
  too, so the rejection handler runs on the error of any of them.
\<close>

subsection \<open>Data\<close>

definition TOKEN_KEY :: string where "TOKEN_KEY = ''auth_token''"
definition REFRESH_TOKEN_KEY :: string where "REFRESH_TOKEN_KEY = ''refresh_token''"
definition USER_DATA_KEY :: string where "USER_DATA_KEY = ''user_data''"

type_synonym AsyncStorage = "string \<rightharpoonup> string"

text \<open>JavaScript's \<open>!token\<close> for a value read from the store: \<open>null\<close> and the empty
  string.\<close>

definition falsy :: "string option \<Rightarrow> bool" where
  "falsy t = (case t of None \<Rightarrow> True | Some v \<Rightarrow> v = [])"

definition multiRemove :: "string list \<Rightarrow> AsyncStorage \<Rightarrow> AsyncStorage" where
  "multiRemove keys st = (\<lambda>k. if k \<in> set keys then None else st k)"

text \<open>A request configuration; \<open>req_retry\<close> is the \<open>_retry\<close> property the interceptor
  sets on it. Axios hands the same configuration back in the error of the request.\<close>

record AxiosRequestConfig =
  req_url :: string
  req_data :: string
  req_retry :: bool

text \<open>\<open>err_status\<close> is \<open>error.response?.status\<close>: \<open>None\<close> when there is no response.\<close>

record AxiosError =
  err_config :: AxiosRequestConfig
  err_status :: "nat option"

text \<open>
  The fields of \<open>class ApiService\<close>, and the storage it works on. A waiter in
  \<open>failedQueue\<close> is the \<open>resolve\<close>/\<open>reject\<close> pair of a pending promise whose
  \<open>then\<close> callback sends \<open>originalRequest\<close> again; it is kept as that request.
\<close>

record ApiService =
  isRefreshing :: bool
  failedQueue :: "AxiosRequestConfig list"
  asyncStorage :: AsyncStorage

datatype api_effect =
    Request AxiosRequestConfig
  | WaiterResolved AxiosRequestConfig
  | WaiterRejected AxiosRequestConfig AxiosError
  | Warn string

text \<open>Where the promise returned by the response interceptor stands after a run.\<close>

datatype interceptor_step =
    Rejected AxiosError
  | Reissued AxiosRequestConfig
  | InQueue
  | AwaitGetItem AxiosError
  | AwaitRefresh AxiosError
  | AwaitSetItem AxiosError string
  | AwaitLogout AxiosError AxiosError

datatype logout_step =
    LogoutAwaitGetItem
  | LogoutAwaitPost
  | LogoutAwaitMultiRemove
  | LogoutDone

subsection \<open>\<open>processQueue\<close>\<close>

text \<open>\<open>processQueue(null)\<close> resolves every waiter, \<open>processQueue(error)\<close> rejects every
  waiter with the error; both empty the queue.\<close>

definition processQueue :: "AxiosError option \<Rightarrow> ApiService \<Rightarrow> ApiService \<times> api_effect list" where
  "processQueue error s =
     (s\<lparr>failedQueue := []\<rparr>,
      map (\<lambda>w. case error of Some e \<Rightarrow> WaiterRejected w e | None \<Rightarrow> WaiterResolved w)
          (failedQueue s))"

subsection \<open>\<open>logout\<close>\<close>

definition logout_request :: AxiosRequestConfig where
  "logout_request = \<lparr> req_url = ''/auth/logout/'', req_data = [], req_retry = False \<rparr>"

definition logout_start :: "ApiService \<Rightarrow> ApiService \<times> logout_step \<times> api_effect list" where
  "logout_start s = (s, LogoutAwaitGetItem, [])"

text \<open>After \<open>await AsyncStorage.getItem(TOKEN_KEY)\<close>: the request is sent when there is
  a token; otherwise the \<open>finally\<close> block starts \<open>multiRemove\<close>.\<close>

definition logout_resume_getItem :: "ApiService \<Rightarrow> ApiService \<times> logout_step \<times> api_effect list" where
  "logout_resume_getItem s =
     (if \<not> falsy (asyncStorage s TOKEN_KEY) then (s, LogoutAwaitPost, [Request logout_request])
      else (s, LogoutAwaitMultiRemove, []))"

text \<open>After \<open>await this.api.post('/auth/logout/')\<close>, with what the request settled with.\<close>

definition logout_resume_post ::
  "AxiosError + unit \<Rightarrow> ApiService \<Rightarrow> ApiService \<times> logout_step \<times> api_effect list" where
  "logout_resume_post r s =
     (case r of
        Inr u \<Rightarrow> (s, LogoutAwaitMultiRemove, [])
      | Inl e \<Rightarrow> (s, LogoutAwaitMultiRemove, [Warn ''Logout API call failed:'']))"

definition logout_resume_multiRemove ::
  "ApiService \<Rightarrow> ApiService \<times> logout_step \<times> api_effect list" where
  "logout_resume_multiRemove s =
     (s\<lparr>asyncStorage := multiRemove [TOKEN_KEY, REFRESH_TOKEN_KEY, USER_DATA_KEY] (asyncStorage s)\<rparr>,
      LogoutDone, [])"

text \<open>
  The request of \<open>logout\<close> goes through the response interceptor below like any other:
  \<open>logout\<close> is resumed after its second \<open>await\<close> only when the interceptor rejects the
  error of the request or the request succeeds. A request that the interceptor puts into
  \<open>failedQueue\<close> leaves \<open>logout\<close> suspended at \<open>LogoutAwaitPost\<close>.
\<close>

subsection \<open>The response interceptor\<close>

definition refreshAuthToken :: "string \<Rightarrow> AxiosRequestConfig" where
  "refreshAuthToken refreshToken =
     \<lparr> req_url = ''/auth/token/refresh/'', req_data = refreshToken, req_retry = False \<rparr>"

text \<open>
  The rejection handler that \<open>setupInterceptors\<close> gives to
  \<open>this.api.interceptors.response.use\<close>, up to its first suspension. Setting
  \<open>originalRequest._retry\<close> changes the configuration the error holds.
\<close>

definition responseError :: "AxiosError \<Rightarrow> ApiService \<Rightarrow> ApiService \<times> interceptor_step" where
  "responseError error s =
     (let originalRequest = err_config error in
      if err_status error = Some 401 \<and> \<not> req_retry originalRequest then
        if isRefreshing s then
          (s\<lparr>failedQueue := failedQueue s @ [originalRequest]\<rparr>, InQueue)
        else
          (s\<lparr>isRefreshing := True\<rparr>,
           AwaitGetItem (error\<lparr>err_config := originalRequest\<lparr>req_retry := True\<rparr>\<rparr>))
      else (s, Rejected error))"

text \<open>After \<open>await AsyncStorage.getItem(REFRESH_TOKEN_KEY)\<close>. Without a refresh token the
  \<open>try\<close> block is left, \<open>finally\<close> clears the flag, and the original error is
  rejected.\<close>

definition resume_getItem ::
  "AxiosError \<Rightarrow> ApiService \<Rightarrow> ApiService \<times> interceptor_step \<times> api_effect list" where
  "resume_getItem error s =
     (case asyncStorage s REFRESH_TOKEN_KEY of
        None \<Rightarrow> (s\<lparr>isRefreshing := False\<rparr>, Rejected error, [])
      | Some refreshToken \<Rightarrow>
          if refreshToken = [] then (s\<lparr>isRefreshing := False\<rparr>, Rejected error, [])
          else (s, AwaitRefresh error, [Request (refreshAuthToken refreshToken)]))"

text \<open>After \<open>await this.refreshAuthToken(refreshToken)\<close>, with the new access token or
  the error the request was rejected with. The \<open>catch\<close> block runs \<open>processQueue\<close> and
  calls \<open>logout\<close>, which suspends at once.\<close>

definition resume_refresh ::
  "AxiosError \<Rightarrow> AxiosError + string \<Rightarrow> ApiService \<Rightarrow>
     ApiService \<times> interceptor_step \<times> api_effect list" where
  "resume_refresh error r s =
     (case r of
        Inr access \<Rightarrow> (s, AwaitSetItem error access, [])
      | Inl refreshError \<Rightarrow>
          (case processQueue (Some refreshError) s of
             (s1, es) \<Rightarrow>
               (case logout_start s1 of
                  (s2, k, es') \<Rightarrow> (s2, AwaitLogout error refreshError, es @ es'))))"

text \<open>After \<open>await AsyncStorage.setItem(TOKEN_KEY, response.data.access)\<close>.\<close>

definition resume_setItem ::
  "AxiosError \<Rightarrow> string \<Rightarrow> ApiService \<Rightarrow> ApiService \<times> interceptor_step \<times> api_effect list" where
  "resume_setItem error access s =
     (case processQueue None (s\<lparr>asyncStorage := (asyncStorage s)(TOKEN_KEY \<mapsto> access)\<rparr>) of
        (s1, es) \<Rightarrow>
          (s1\<lparr>isRefreshing := False\<rparr>, Reissued (err_config error),
           es @ [Request (err_config error)]))"

text \<open>After \<open>await this.logout()\<close> in the \<open>catch\<close> block.\<close>

definition resume_logout ::
  "AxiosError \<Rightarrow> AxiosError \<Rightarrow> ApiService \<Rightarrow> ApiService \<times> interceptor_step \<times> api_effect list" where
  "resume_logout error refreshError s = (s\<lparr>isRefreshing := False\<rparr>, Rejected refreshError, [])"

section \<open>Notions used in the statements\<close>

text \<open>The categories that \<open>handleMessage\<close> passes on to subscribers.\<close>

definition categories :: "string list" where
  "categories = [''notification'', ''attendance_update'', ''leave_update'', ''shift_update'',
                 ''payroll_update'', ''system_message'']"

text \<open>The listener calls among the effects of a run: event and callback.\<close>

fun invoked :: "effect list \<Rightarrow> (string \<times> nat) list" where
  "invoked [] = []"
| "invoked (Invoke ev i args # es) = (ev, i) # invoked es"
| "invoked (e # es) = invoked es"

text \<open>The types \<open>handleMessage\<close> has a case for.\<close>

definition recognized :: "string list" where
  "recognized = categories @ [''pong'']"

text \<open>The error of a request answered 401.\<close>

definition unauthorized :: "AxiosRequestConfig \<Rightarrow> AxiosError" where
  "unauthorized r = \<lparr> err_config = r, err_status = Some 401 \<rparr>"

text \<open>Requests answered 401 one after the other while a refresh is in flight: the state
  after their handlers have run.\<close>

definition park :: "AxiosRequestConfig list \<Rightarrow> ApiService \<Rightarrow> ApiService" where
  "park rs s = fold (\<lambda>r s'. fst (responseError (unauthorized r) s')) rs s"

text \<open>Errors answered one after the other to requests of other callers: the state after
  their handlers have run.\<close>

definition answered :: "AxiosError list \<Rightarrow> ApiService \<Rightarrow> ApiService" where
  "answered es s = fold (\<lambda>e s'. fst (responseError e s')) es s"

section \<open>Concrete states and inputs\<close>

text \<open>The channel after \<open>connect\<close> found a token, the socket was created and the
  runtime reported it open.\<close>

definition open_channel :: WebSocketService where
  "open_channel =
     fst (onopen (runtime_readyState OPEN
       (fst (connect (Fulfilled (Some ''token'')) False new_WebSocketService))))"

text \<open>Two subscribers of \<open>'notification'\<close>; the one registered first raises.\<close>

definition raising :: listener where
  "raising = \<lparr> cb_id = 1, cb_raises = (\<lambda>args. True) \<rparr>"

definition quiet :: listener where
  "quiet = \<lparr> cb_id = 2, cb_raises = (\<lambda>args. False) \<rparr>"

definition two_subscribers :: WebSocketService where
  "two_subscribers = on ''notification'' quiet (on ''notification'' raising new_WebSocketService)"

definition notification_frame :: WebSocketMessage where
  "notification_frame = \<lparr> msg_type = ''notification'', msg_data = Some (JObj [(''id'', JNum 1)]) \<rparr>"

text \<open>A listener of the generic \<open>'message'\<close> event on an open channel, and a frame of a
  type the switch does not know.\<close>

definition generic_listener :: listener where
  "generic_listener = \<lparr> cb_id = 3, cb_raises = (\<lambda>args. False) \<rparr>"

definition with_generic :: WebSocketService where
  "with_generic = on ''message'' generic_listener open_channel"

definition unknown_frame :: WebSocketMessage where
  "unknown_frame = \<lparr> msg_type = ''typing'', msg_data = Some (JStr ''x'') \<rparr>"

text \<open>Three requests of three screens; the service with an empty store, with an
  expired access token, and after a refresh.\<close>

definition reqA :: AxiosRequestConfig where
  "reqA = \<lparr> req_url = ''/attendance/today/'', req_data = [], req_retry = False \<rparr>"

definition reqB :: AxiosRequestConfig where
  "reqB = \<lparr> req_url = ''/leave/balance/'', req_data = [], req_retry = False \<rparr>"

definition reqC :: AxiosRequestConfig where
  "reqC = \<lparr> req_url = ''/shifts/my/'', req_data = [], req_retry = False \<rparr>"

definition no_credentials :: ApiService where
  "no_credentials = \<lparr> isRefreshing = False, failedQueue = [], asyncStorage = Map.empty \<rparr>"

definition signed_in :: ApiService where
  "signed_in =
     \<lparr> isRefreshing = False, failedQueue = [],
       asyncStorage = [TOKEN_KEY \<mapsto> ''expired'', REFRESH_TOKEN_KEY \<mapsto> ''refresh'',
                       USER_DATA_KEY \<mapsto> ''user''] \<rparr>"


text \<open>The open channel after \<open>disconnect\<close>; after a \<open>connect\<close> that follows it and
  finds a token; and after the close event of the socket that \<open>disconnect\<close> closed.\<close>

definition disconnected_by_caller :: WebSocketService where
  "disconnected_by_caller = fst (disconnect open_channel)"

definition second_attempt :: WebSocketService where
  "second_attempt = fst (connect (Fulfilled (Some ''token'')) False disconnected_by_caller)"

definition after_stale_close :: WebSocketService where
  "after_stale_close = fst (onclose 1000 [] second_attempt)"

text \<open>The service while a refresh is in flight, and a refresh request answered 500.\<close>

definition refresh_failed :: AxiosError where
  "refresh_failed = \<lparr> err_config = refreshAuthToken ''refresh'', err_status = Some 500 \<rparr>"

definition refreshing :: ApiService where
  "refreshing = signed_in\<lparr>isRefreshing := True\<rparr>"

section \<open>Properties of the realtime channel\<close>

subsection \<open>Auxiliary facts\<close>

lemma callListeners_no_SetTimeout: "SetTimeout d \<notin> set (fst (callListeners ev ls args))"
  by (induction ls) (auto split: prod.splits)

lemma emit_no_SetTimeout: "SetTimeout d \<notin> set (fst (emit ev args s))"
  using callListeners_no_SetTimeout [of d ev "listenersOf ev s" args]
  by (auto simp: emit_def split: prod.splits)

lemma emit_has_Emit: "Emit ev args \<in> set (fst (emit ev args s))"
  by (auto simp: emit_def split: prod.splits)

lemma open_channel_eq:
  "open_channel =
     \<lparr> ws = Some \<lparr> ws_url = ''ws://192.168.1.100:8000/ws/notifications/?token=token'',
                   ws_readyState = OPEN \<rparr>,
       reconnectAttempts = 0, maxReconnectAttempts = 5, reconnectInterval = 1000,
       isConnecting = False, shouldReconnect = True, heartbeatInterval = Some (),
       baseUrl = ''ws://192.168.1.100:8000'', events = [] \<rparr>"
  by (simp add: open_channel_def onopen_def runtime_readyState_def connect_def connect_start_def
      connect_resume_def new_WebSocketService_def ws_open_def startHeartbeat_def stopHeartbeat_def
      emit_def listenersOf_def Let_def)

lemma disconnected_by_caller_eq:
  "disconnected_by_caller =
     open_channel\<lparr>ws := None, shouldReconnect := False, heartbeatInterval := None\<rparr>"
  by (simp add: disconnected_by_caller_def disconnect_def stopHeartbeat_def open_channel_eq)

lemma second_attempt_eq:
  "second_attempt =
     open_channel\<lparr>ws := Some \<lparr> ws_url = ''ws://192.168.1.100:8000/ws/notifications/?token=token'',
                                ws_readyState = CONNECTING \<rparr>,
                   isConnecting := True, shouldReconnect := False, heartbeatInterval := None\<rparr>"
  by (simp add: second_attempt_def disconnected_by_caller_eq connect_def connect_start_def
      connect_resume_def ws_open_def open_channel_eq Let_def)

lemma after_stale_close_eq:
  "after_stale_close = second_attempt\<lparr>isConnecting := False\<rparr>"
  by (simp add: after_stale_close_def second_attempt_eq onclose_def stopHeartbeat_def emit_def
      listenersOf_def open_channel_eq)

lemma heartbeatTicks_open:
  "ws_open s \<Longrightarrow> heartbeatTicks n s = (s, replicate n (WsSend ping), False)"
  by (induction n) (simp_all add: heartbeatTick_def sendMessage_def)

lemma invoked_append: "invoked (es @ es') = invoked es @ invoked es'"
  by (induction es rule: invoked.induct) simp_all

lemma callListeners_stops:
  "\<forall>p \<in> set pre. \<not> cb_raises p args \<Longrightarrow> cb_raises l args \<Longrightarrow>
     callListeners ev (pre @ l # post) args =
       (map (\<lambda>x. Invoke ev (cb_id x) args) (pre @ [l]), True)"
  by (induction pre) simp_all

lemma callListeners_all:
  "\<forall>p \<in> set ls. \<not> cb_raises p args \<Longrightarrow>
     callListeners ev ls args = (map (\<lambda>x. Invoke ev (cb_id x) args) ls, False)"
  by (induction ls) simp_all

lemma invoked_map: "invoked (map (\<lambda>x. Invoke ev (cb_id x) args) ls) = map (\<lambda>x. (ev, cb_id x)) ls"
  by (induction ls) simp_all

lemma emit_eq:
  "ev \<noteq> ''error'' \<Longrightarrow>
     emit ev args s =
       (Emit ev args # fst (callListeners ev (listenersOf ev s) args),
        snd (callListeners ev (listenersOf ev s) args))"
  by (simp add: emit_def split: prod.splits)

lemma handleCategory_eq:
  "ev \<noteq> ''error'' \<Longrightarrow>
     handleCategory line ev m s =
       (s, ConsoleLog line # Emit ev (data_arg m) #
             fst (callListeners ev (listenersOf ev s) (data_arg m)),
        snd (callListeners ev (listenersOf ev s) (data_arg m)))"
  by (simp add: handleCategory_def emit_eq)

lemma handleMessage_category:
  assumes "msg_type m \<in> set categories"
  shows "\<exists>line. handleMessage m s =
       (s, ConsoleLog ''Received WebSocket message:'' # ConsoleLog line #
           Emit (msg_type m) (data_arg m) # fst (callListeners (msg_type m) (listenersOf (msg_type m) s) (data_arg m)),
        snd (callListeners (msg_type m) (listenersOf (msg_type m) s) (data_arg m)))"
proof -
  from assms consider
      "msg_type m = ''notification''" | "msg_type m = ''attendance_update''"
    | "msg_type m = ''leave_update''" | "msg_type m = ''shift_update''"
    | "msg_type m = ''payroll_update''" | "msg_type m = ''system_message''"
    unfolding categories_def by auto
  then show ?thesis
  proof cases
    case 1
    then show ?thesis
      by (simp add: handleMessage_def logged_def handleNotification_def handleCategory_eq)
  next
    case 2
    then show ?thesis
      by (simp add: handleMessage_def logged_def handleAttendanceUpdate_def handleCategory_eq)
  next
    case 3
    then show ?thesis
      by (simp add: handleMessage_def logged_def handleLeaveUpdate_def handleCategory_eq)
  next
    case 4
    then show ?thesis
      by (simp add: handleMessage_def logged_def handleShiftUpdate_def handleCategory_eq)
  next
    case 5
    then show ?thesis
      by (simp add: handleMessage_def logged_def handlePayrollUpdate_def handleCategory_eq)
  next
    case 6
    then show ?thesis
      by (simp add: handleMessage_def logged_def handleSystemMessage_def handleCategory_eq)
  qed
qed

lemma handleCategory_state: "fst (handleCategory line ev m s) = s"
  by (simp add: handleCategory_def split: prod.splits)

lemma logged_state: "fst (logged r) = fst r"
  by (simp add: logged_def split: prod.splits)

lemma handleMessage_state: "fst (handleMessage m s) = s"
  unfolding handleMessage_def logged_state
  by (simp add: handleNotification_def handleAttendanceUpdate_def handleLeaveUpdate_def
      handleShiftUpdate_def handlePayrollUpdate_def handleSystemMessage_def
      handleCategory_state split: prod.splits)

lemma onmessage_state: "fst (onmessage p s) = s"
proof (cases p)
  case None
  then show ?thesis by (simp add: onmessage_def)
next
  case (Some m)
  obtain s1 es thrown where h: "handleMessage m s = (s1, es, thrown)"
    by (cases "handleMessage m s") auto
  then have "s1 = s" using handleMessage_state [of m s] by simp
  with Some h show ?thesis by (simp add: onmessage_def)
qed

lemma onmessage_caught: "\<not> snd (snd (onmessage p s))"
  by (simp add: onmessage_def split: option.splits prod.splits)

subsection \<open>Reconnect backoff\<close>

text \<open>
  C4. When the attempt counter stands at \<open>n - 1\<close> with \<open>1 \<le> n \<le> maxReconnectAttempts\<close>,
  \<open>handleReconnect\<close> counts attempt \<open>n\<close> and sets the reconnect timer to
  \<open>reconnectInterval * 2 ^ (n - 1)\<close> milliseconds. When the counter has reached
  \<open>maxReconnectAttempts\<close>, it sets no timer, leaves the fields as they are and emits
  \<open>'max_reconnect_attempts_reached'\<close>.
\<close>

theorem handleReconnect_backoff:
  "(1 \<le> n \<and> n \<le> maxReconnectAttempts s \<and> reconnectAttempts s = n - 1 \<longrightarrow>
      handleReconnect s =
        (s\<lparr>reconnectAttempts := n\<rparr>,
         [ConsoleLog ''Attempting to reconnect'', SetTimeout (reconnectInterval s * 2 ^ (n - 1))],
         False)) \<and>
   (maxReconnectAttempts s \<le> reconnectAttempts s \<longrightarrow>
      fst (handleReconnect s) = s \<and>
      Emit ''max_reconnect_attempts_reached'' [] \<in> set (fst (snd (handleReconnect s))) \<and>
      (\<forall>d. SetTimeout d \<notin> set (fst (snd (handleReconnect s)))))"
proof (intro conjI impI)
  assume a: "1 \<le> n \<and> n \<le> maxReconnectAttempts s \<and> reconnectAttempts s = n - 1"
  then have "\<not> maxReconnectAttempts s \<le> reconnectAttempts s" by arith
  moreover from a have "reconnectAttempts s + 1 = n" by arith
  ultimately show "handleReconnect s =
        (s\<lparr>reconnectAttempts := n\<rparr>,
         [ConsoleLog ''Attempting to reconnect'', SetTimeout (reconnectInterval s * 2 ^ (n - 1))],
         False)"
    by (simp add: handleReconnect_def Let_def)
next
  assume b: "maxReconnectAttempts s \<le> reconnectAttempts s"
  then show "fst (handleReconnect s) = s"
    by (simp add: handleReconnect_def split: prod.splits)
  from b show "Emit ''max_reconnect_attempts_reached'' [] \<in> set (fst (snd (handleReconnect s)))"
    using emit_has_Emit [of "''max_reconnect_attempts_reached''" "[]" s]
    by (cases "emit ''max_reconnect_attempts_reached'' [] s") (simp add: handleReconnect_def)
  from b show "\<forall>d. SetTimeout d \<notin> set (fst (snd (handleReconnect s)))"
    using emit_no_SetTimeout [of _ "''max_reconnect_attempts_reached''" "[]" s]
    by (cases "emit ''max_reconnect_attempts_reached'' [] s") (simp add: handleReconnect_def)
qed

theorem handleReconnect_backoff_witness:
  "handleReconnect (new_WebSocketService\<lparr>reconnectAttempts := 2\<rparr>) =
     (new_WebSocketService\<lparr>reconnectAttempts := 3\<rparr>,
      [ConsoleLog ''Attempting to reconnect'', SetTimeout 4000], False) \<and>
   fst (handleReconnect (new_WebSocketService\<lparr>reconnectAttempts := 5\<rparr>)) =
     new_WebSocketService\<lparr>reconnectAttempts := 5\<rparr> \<and>
   Emit ''max_reconnect_attempts_reached'' []
     \<in> set (fst (snd (handleReconnect (new_WebSocketService\<lparr>reconnectAttempts := 5\<rparr>))))"
  using handleReconnect_backoff [of 3 "new_WebSocketService\<lparr>reconnectAttempts := 2\<rparr>"]
        handleReconnect_backoff [of 0 "new_WebSocketService\<lparr>reconnectAttempts := 5\<rparr>"]
  by (simp add: new_WebSocketService_def)

subsection \<open>Connecting\<close>

text \<open>
  C8, evaluated where it fails. The channel is open; \<open>disconnect\<close> closes the socket and
  clears \<open>this.ws\<close>; \<open>connect\<close> finds a token and creates a second socket, which is
  connecting, with \<open>isConnecting\<close> set. Then the close event of the first socket arrives:
  its \<open>onclose\<close> clears \<open>isConnecting\<close>, while the second socket is still connecting.
  A further \<open>connect\<close> passes the guard, since the flag is clear and the socket is not
  open, and creates a third socket over the attempt in progress.
\<close>

theorem stale_close_second_socket:
  "disconnect open_channel = (disconnected_by_caller, [ClearInterval, WsClose]) \<and>
   connect (Fulfilled (Some ''token'')) False disconnected_by_caller =
     (second_attempt,
      [ConsoleLog ''Connecting to WebSocket:'',
       NewWebSocket ''ws://192.168.1.100:8000/ws/notifications/?token=token''], False) \<and>
   ws second_attempt =
     Some \<lparr> ws_url = ''ws://192.168.1.100:8000/ws/notifications/?token=token'',
            ws_readyState = CONNECTING \<rparr> \<and>
   isConnecting second_attempt \<and>
   onclose 1000 [] second_attempt =
     (after_stale_close,
      [ConsoleLog ''WebSocket disconnected:'',
       Emit ''disconnected'' [JObj [(''code'', JNum 1000), (''reason'', JStr [])]]], False) \<and>
   ws after_stale_close = ws second_attempt \<and>
   connect (Fulfilled (Some ''token'')) False after_stale_close =
     (second_attempt,
      [ConsoleLog ''Connecting to WebSocket:'',
       NewWebSocket ''ws://192.168.1.100:8000/ws/notifications/?token=token''], False)"
proof -
  have 1: "disconnect open_channel = (disconnected_by_caller, [ClearInterval, WsClose])"
    by (simp add: disconnected_by_caller_eq) (simp add: disconnect_def stopHeartbeat_def open_channel_eq)
  have 2: "connect (Fulfilled (Some ''token'')) False disconnected_by_caller =
     (second_attempt,
      [ConsoleLog ''Connecting to WebSocket:'',
       NewWebSocket ''ws://192.168.1.100:8000/ws/notifications/?token=token''], False)"
    by (simp add: second_attempt_eq) (simp add: disconnected_by_caller_eq connect_def connect_start_def
      connect_resume_def ws_open_def open_channel_eq Let_def)
  have 3: "onclose 1000 [] second_attempt =
     (after_stale_close,
      [ConsoleLog ''WebSocket disconnected:'',
       Emit ''disconnected'' [JObj [(''code'', JNum 1000), (''reason'', JStr [])]]], False)"
    by (simp add: after_stale_close_eq) (simp add: second_attempt_eq onclose_def stopHeartbeat_def emit_def
      listenersOf_def open_channel_eq)
  have 4: "connect (Fulfilled (Some ''token'')) False after_stale_close =
     (second_attempt,
      [ConsoleLog ''Connecting to WebSocket:'',
       NewWebSocket ''ws://192.168.1.100:8000/ws/notifications/?token=token''], False)"
    by (simp add: after_stale_close_eq second_attempt_eq connect_def connect_start_def
      connect_resume_def ws_open_def open_channel_eq Let_def)
  show ?thesis
    using 1 2 3 4 by (simp add: after_stale_close_eq second_attempt_eq)
qed

text \<open>
  C9. When the storage holds no access token (or an empty one), \<open>connect\<close> returns
  normally: the part resumed after the read only clears \<open>isConnecting\<close> and prints a
  warning, so the whole call leaves every field as it was, creates no socket and sets no
  reconnect timer.
\<close>

theorem connect_without_token:
  "connect_resume (Fulfilled None) ctor_raises s =
     (s\<lparr>isConnecting := False\<rparr>,
      [ConsoleWarn ''No auth token found, cannot connect to WebSocket''], False) \<and>
   connect_resume (Fulfilled (Some [])) ctor_raises s =
     connect_resume (Fulfilled None) ctor_raises s \<and>
   connect (Fulfilled None) ctor_raises s =
     (s, if isConnecting s \<or> ws_open s then []
         else [ConsoleWarn ''No auth token found, cannot connect to WebSocket''], False)"
  by (simp add: connect_def connect_start_def connect_resume_def)

subsection \<open>Sending\<close>

text \<open>
  C10. \<open>sendMessage\<close> with no socket, or with a socket that is not open, sends nothing,
  changes no field, raises nothing and prints one warning.
\<close>

theorem sendMessage_not_open:
  "ws s = None \<or> (\<exists>w. ws s = Some w \<and> ws_readyState w \<noteq> OPEN) \<Longrightarrow>
     sendMessage message s =
       (s, [ConsoleWarn ''WebSocket is not connected, cannot send message''], False)"
  by (auto simp: sendMessage_def ws_open_def)

theorem sendMessage_not_open_witness:
  "ws new_WebSocketService = None \<and>
   sendMessage ping new_WebSocketService =
     (new_WebSocketService,
      [ConsoleWarn ''WebSocket is not connected, cannot send message''], False)"
proof -
  have a: "ws new_WebSocketService = None" by (simp add: new_WebSocketService_def)
  then show ?thesis
    using sendMessage_not_open [of new_WebSocketService ping] by simp
qed

subsection \<open>Heartbeat\<close>

text \<open>
  C3, as stated, fails: after three heartbeat intervals with no pong the channel is still
  open, the fields are unchanged, and the only effects are the three pings; no reconnect
  timer was set and \<open>'disconnected'\<close> was not emitted.
\<close>

theorem heartbeat_no_deadline_counterexample:
  "ws_open open_channel \<and>
   heartbeatTicks 3 open_channel = (open_channel, [WsSend ping, WsSend ping, WsSend ping], False)"
  by (simp add: open_channel_eq ws_open_def heartbeatTick_def sendMessage_def numeral_3_eq_3)

text \<open>
  C3, amended. While the socket is open, every run of the heartbeat timer, set to 30000
  milliseconds, sends one ping and changes no field, however many runs pass without a
  pong; a pong frame is logged and otherwise ignored.
\<close>

theorem heartbeat_pings_only:
  "ws_open s \<Longrightarrow>
     heartbeatTicks n s = (s, replicate n (WsSend ping), False) \<and>
     handleMessage \<lparr> msg_type = ''pong'', msg_data = d \<rparr> s =
       (s, [ConsoleLog ''Received WebSocket message:''], False) \<and>
     snd (startHeartbeat s) =
       (case heartbeatInterval s of Some t \<Rightarrow> [ClearInterval] | None \<Rightarrow> []) @
       [SetInterval 30000]"
  by (simp add: heartbeatTicks_open handleMessage_def logged_def startHeartbeat_def
      stopHeartbeat_def split: option.splits)

theorem heartbeat_pings_only_witness:
  "ws_open open_channel \<and>
   heartbeatTicks 5 open_channel = (open_channel, replicate 5 (WsSend ping), False)"
proof -
  have a: "ws_open open_channel" by (simp add: open_channel_eq ws_open_def)
  then show ?thesis using heartbeat_pings_only [of open_channel 5] by simp
qed

subsection \<open>Subscribers that raise\<close>

text \<open>
  C5, as stated, fails: with two subscribers of \<open>'notification'\<close>, the first of which
  raises, a notification frame reaches the first subscriber only.
\<close>

theorem raising_subscriber_counterexample:
  "listenersOf ''notification'' two_subscribers = [raising, quiet] \<and>
   invoked (fst (snd (onmessage (Some notification_frame) two_subscribers))) = [(''notification'', 1)]"
  by (simp add: two_subscribers_def on_def new_WebSocketService_def listenersOf_def onmessage_def
      handleMessage_def logged_def handleNotification_def handleCategory_def emit_def
      notification_frame_def data_arg_def raising_def quiet_def)

text \<open>
  C5, amended. For a frame of one of the six categories, the subscribers of the category
  are called in registration order up to and including the first one that raises; those
  registered after it do not receive the frame. The exception ends in \<open>onmessage\<close>, which
  logs it as its last effect; the fields are unchanged, and the next frame is handled as
  if the exception had not happened.
\<close>

theorem raising_subscriber_stops_delivery:
  assumes "msg_type m \<in> set categories"
    and "listenersOf (msg_type m) s = pre @ l # post"
    and "\<forall>p \<in> set pre. \<not> cb_raises p (data_arg m)"
    and "cb_raises l (data_arg m)"
  shows "invoked (fst (snd (onmessage (Some m) s))) = map (\<lambda>x. (msg_type m, cb_id x)) (pre @ [l]) \<and>
         fst (onmessage (Some m) s) = s \<and>
         \<not> snd (snd (onmessage (Some m) s)) \<and>
         last (fst (snd (onmessage (Some m) s))) = ConsoleError ''Error parsing WebSocket message:'' \<and>
         onmessage next_frame (fst (onmessage (Some m) s)) = onmessage next_frame s"
proof -
  obtain line where h: "handleMessage m s =
       (s, ConsoleLog ''Received WebSocket message:'' # ConsoleLog line #
           Emit (msg_type m) (data_arg m) # fst (callListeners (msg_type m) (listenersOf (msg_type m) s) (data_arg m)),
        snd (callListeners (msg_type m) (listenersOf (msg_type m) s) (data_arg m)))"
    using handleMessage_category [OF assms(1)] by blast
  have c: "callListeners (msg_type m) (listenersOf (msg_type m) s) (data_arg m) =
       (map (\<lambda>x. Invoke (msg_type m) (cb_id x) (data_arg m)) (pre @ [l]), True)"
    using callListeners_stops [OF assms(3) assms(4)] assms(2) by simp
  have "invoked (fst (snd (onmessage (Some m) s))) = map (\<lambda>x. (msg_type m, cb_id x)) (pre @ [l])"
    using invoked_map [of "msg_type m" "data_arg m" "pre @ [l]"]
    by (simp add: onmessage_def h c invoked_append del: map_append)
  moreover have "last (fst (snd (onmessage (Some m) s))) =
      ConsoleError ''Error parsing WebSocket message:''"
    by (simp add: onmessage_def h c)
  ultimately show ?thesis
    using onmessage_state [of "Some m" s] onmessage_caught [of "Some m" s] by simp
qed

text \<open>The witness of the amended C5, on the two subscribers above.\<close>

theorem raising_subscriber_stops_delivery_witness:
  "msg_type notification_frame \<in> set categories \<and>
   listenersOf (msg_type notification_frame) two_subscribers = [] @ raising # [quiet] \<and>
   cb_raises raising (data_arg notification_frame) \<and>
   invoked (fst (snd (onmessage (Some notification_frame) two_subscribers))) =
     [(''notification'', 1)] \<and>
   fst (onmessage (Some notification_frame) two_subscribers) = two_subscribers \<and>
   \<not> snd (snd (onmessage (Some notification_frame) two_subscribers))"
proof -
  have a: "msg_type notification_frame \<in> set categories"
    by (simp add: notification_frame_def categories_def)
  have b: "listenersOf (msg_type notification_frame) two_subscribers = [] @ raising # [quiet]"
    by (simp add: two_subscribers_def on_def new_WebSocketService_def listenersOf_def
        notification_frame_def)
  have c: "\<forall>p \<in> set []. \<not> cb_raises p (data_arg notification_frame)" by simp
  have d: "cb_raises raising (data_arg notification_frame)" by (simp add: raising_def)
  show ?thesis
    using raising_subscriber_stops_delivery [OF a b c d] a b d
    by (simp add: notification_frame_def raising_def)
qed

subsection \<open>Frames of an unknown type\<close>

text \<open>
  C6, as stated, fails: a frame of the unknown type \<open>typing\<close> is not dropped, it is
  handed to the listener of \<open>'message'\<close>.
\<close>

theorem unknown_frame_counterexample:
  "msg_type unknown_frame \<notin> set recognized \<and>
   fst (snd (handleMessage unknown_frame with_generic)) =
     [ConsoleLog ''Received WebSocket message:'', ConsoleWarn ''Unknown message type:'',
      Emit ''message'' [JObj [(''type'', JStr ''typing''), (''data'', JStr ''x'')]],
      Invoke ''message'' 3 [JObj [(''type'', JStr ''typing''), (''data'', JStr ''x'')]]]"
  by (simp add: unknown_frame_def recognized_def categories_def with_generic_def on_def
      open_channel_eq handleMessage_def logged_def emit_def listenersOf_def message_json_def
      generic_listener_def)

lemma handleMessage_unknown:
  assumes "msg_type m \<notin> set recognized"
  shows "handleMessage m s =
     (s, ConsoleLog ''Received WebSocket message:'' # ConsoleWarn ''Unknown message type:'' #
         Emit ''message'' [message_json m] #
         fst (callListeners ''message'' (listenersOf ''message'' s) [message_json m]),
      snd (callListeners ''message'' (listenersOf ''message'' s) [message_json m]))"
proof -
  from assms have "msg_type m \<noteq> ''notification''" "msg_type m \<noteq> ''attendance_update''"
    "msg_type m \<noteq> ''leave_update''" "msg_type m \<noteq> ''shift_update''"
    "msg_type m \<noteq> ''payroll_update''" "msg_type m \<noteq> ''system_message''"
    "msg_type m \<noteq> ''pong''"
    unfolding recognized_def categories_def by auto
  then show ?thesis
    by (simp add: handleMessage_def logged_def emit_eq)
qed

lemma callListeners_effects:
  "set (fst (callListeners ev ls args)) \<subseteq> (\<lambda>l. Invoke ev (cb_id l) args) ` set ls"
  by (induction ls) (auto split: prod.splits)

lemma invoked_set:
  "set es \<subseteq> (\<lambda>l. Invoke ev (cb_id l) args) ` set ls \<Longrightarrow>
     set (invoked es) \<subseteq> (\<lambda>l. (ev, cb_id l)) ` set ls"
  by (induction es rule: invoked.induct) auto

text \<open>
  C6, amended. For a frame whose type is none of the seven recognized ones,
  \<open>handleMessage\<close> prints a warning and emits the whole frame as \<open>'message'\<close>: the only
  callbacks called are listeners of \<open>'message'\<close>, none of a category event. The fields
  are unchanged, no exception leaves \<open>onmessage\<close>, and the socket is not closed.
\<close>

theorem unknown_frame_forwarded:
  assumes "msg_type m \<notin> set recognized"
  shows "handleMessage m s =
     (s, ConsoleLog ''Received WebSocket message:'' # ConsoleWarn ''Unknown message type:'' #
         Emit ''message'' [message_json m] #
         fst (callListeners ''message'' (listenersOf ''message'' s) [message_json m]),
      snd (callListeners ''message'' (listenersOf ''message'' s) [message_json m])) \<and>
     set (invoked (fst (snd (onmessage (Some m) s))))
       \<subseteq> (\<lambda>l. (''message'', cb_id l)) ` set (listenersOf ''message'' s) \<and>
     fst (onmessage (Some m) s) = s \<and>
     \<not> snd (snd (onmessage (Some m) s)) \<and>
     WsClose \<notin> set (fst (snd (onmessage (Some m) s)))"
proof -
  let ?c = "callListeners ''message'' (listenersOf ''message'' s) [message_json m]"
  have h: "handleMessage m s =
     (s, ConsoleLog ''Received WebSocket message:'' # ConsoleWarn ''Unknown message type:'' #
         Emit ''message'' [message_json m] # fst ?c, snd ?c)"
    using handleMessage_unknown [OF assms] .
  have sub: "set (fst ?c) \<subseteq> (\<lambda>l. Invoke ''message'' (cb_id l) [message_json m]) ` set (listenersOf ''message'' s)"
    using callListeners_effects .
  have inv: "set (invoked (fst ?c)) \<subseteq> (\<lambda>l. (''message'', cb_id l)) ` set (listenersOf ''message'' s)"
    using invoked_set [OF sub] .
  have nc: "WsClose \<notin> set (fst ?c)"
    using sub by auto
  have i: "set (invoked (fst (snd (onmessage (Some m) s))))
       \<subseteq> (\<lambda>l. (''message'', cb_id l)) ` set (listenersOf ''message'' s)"
    using inv by (simp add: onmessage_def h invoked_append)
  have c: "WsClose \<notin> set (fst (snd (onmessage (Some m) s)))"
    using nc by (simp add: onmessage_def h)
  show ?thesis
    using h i c onmessage_state [of "Some m" s] onmessage_caught [of "Some m" s] by simp
qed

theorem unknown_frame_forwarded_witness:
  "msg_type unknown_frame \<notin> set recognized \<and>
   fst (onmessage (Some unknown_frame) with_generic) = with_generic \<and>
   \<not> snd (snd (onmessage (Some unknown_frame) with_generic)) \<and>
   WsClose \<notin> set (fst (snd (onmessage (Some unknown_frame) with_generic)))"
proof -
  have a: "msg_type unknown_frame \<notin> set recognized"
    by (simp add: unknown_frame_def recognized_def categories_def)
  show ?thesis
    using unknown_frame_forwarded [OF a, of with_generic] a by simp
qed

section \<open>Properties of the request pipeline\<close>

subsection \<open>Auxiliary facts\<close>


lemma multiRemove_keys:
  "multiRemove [TOKEN_KEY, REFRESH_TOKEN_KEY, USER_DATA_KEY] st TOKEN_KEY = None"
  "multiRemove [TOKEN_KEY, REFRESH_TOKEN_KEY, USER_DATA_KEY] st REFRESH_TOKEN_KEY = None"
  "multiRemove [TOKEN_KEY, REFRESH_TOKEN_KEY, USER_DATA_KEY] st USER_DATA_KEY = None"
  by (simp_all add: multiRemove_def)

lemma store_signed_in:
  "asyncStorage signed_in TOKEN_KEY = Some ''expired''"
  "asyncStorage signed_in REFRESH_TOKEN_KEY = Some ''refresh''"
  "asyncStorage signed_in USER_DATA_KEY = Some ''user''"
  by (simp_all add: signed_in_def TOKEN_KEY_def REFRESH_TOKEN_KEY_def USER_DATA_KEY_def)

lemma responseError_while_refreshing:
  assumes "isRefreshing s"
  shows "isRefreshing (fst (responseError e s)) \<and>
         asyncStorage (fst (responseError e s)) = asyncStorage s \<and>
         set (failedQueue s) \<subseteq> set (failedQueue (fst (responseError e s))) \<and>
         (snd (responseError e s) = InQueue \<or> snd (responseError e s) = Rejected e)"
  using assms by (auto simp: responseError_def Let_def)

lemma answered_while_refreshing:
  "isRefreshing s \<Longrightarrow>
     isRefreshing (answered es s) \<and> asyncStorage (answered es s) = asyncStorage s \<and>
     set (failedQueue s) \<subseteq> set (failedQueue (answered es s))"
  unfolding answered_def
proof (induction es arbitrary: s)
  case Nil
  then show ?case by simp
next
  case (Cons e es)
  have h: "isRefreshing (fst (responseError e s))"
    "asyncStorage (fst (responseError e s)) = asyncStorage s"
    "set (failedQueue s) \<subseteq> set (failedQueue (fst (responseError e s)))"
    using responseError_while_refreshing [OF Cons.prems, of e] by simp_all
  show ?case using Cons.IH [OF h(1)] h(2,3) by auto
qed

lemma logout_resume_multiRemove_clears:
  "asyncStorage (fst (logout_resume_multiRemove s)) TOKEN_KEY = None \<and>
   asyncStorage (fst (logout_resume_multiRemove s)) REFRESH_TOKEN_KEY = None \<and>
   asyncStorage (fst (logout_resume_multiRemove s)) USER_DATA_KEY = None"
  by (simp add: logout_resume_multiRemove_def multiRemove_def)

lemma other_errors_pass:
  "err_status e \<noteq> Some 401 \<Longrightarrow> responseError e s = (s, Rejected e)"
  by (simp add: responseError_def Let_def)

lemma parked_during_refresh:
  "isRefreshing s \<Longrightarrow> err_status e = Some 401 \<Longrightarrow> \<not> req_retry (err_config e) \<Longrightarrow>
     responseError e s = (s\<lparr>failedQueue := failedQueue s @ [err_config e]\<rparr>, InQueue)"
  by (simp add: responseError_def Let_def)

text \<open>
  The refresh as designed, for any number of waiters: with a refresh token in the store,
  one refresh request is sent; when it succeeds every waiter is resolved and the leading
  request is sent again, when it is rejected every waiter is rejected with its error and
  so is, after \<open>logout\<close>, the leading caller.
\<close>

lemma park_queue:
  "isRefreshing s \<Longrightarrow> \<forall>w \<in> set waiters. \<not> req_retry w \<Longrightarrow>
     park waiters s = s\<lparr>failedQueue := failedQueue s @ waiters\<rparr>"
  unfolding park_def
proof (induction waiters arbitrary: s)
  case Nil
  then show ?case by simp
next
  case (Cons w waiters)
  have step: "fst (responseError (unauthorized w) s) = s\<lparr>failedQueue := failedQueue s @ [w]\<rparr>"
    using Cons.prems by (simp add: responseError_def unauthorized_def Let_def)
  have "isRefreshing (s\<lparr>failedQueue := failedQueue s @ [w]\<rparr>)"
    using Cons.prems by simp
  then show ?case
    using Cons.IH [of "s\<lparr>failedQueue := failedQueue s @ [w]\<rparr>"] Cons.prems step by simp
qed

lemma single_flight_refresh:
  assumes "\<not> isRefreshing s" and "failedQueue s = []" and "\<not> req_retry r"
    and "\<forall>w \<in> set waiters. \<not> req_retry w"
    and "asyncStorage s REFRESH_TOKEN_KEY = Some tok" and "tok \<noteq> []"
  defines "e \<equiv> unauthorized (r\<lparr>req_retry := True\<rparr>)"
    and "s1 \<equiv> s\<lparr>isRefreshing := True, failedQueue := waiters\<rparr>"
  shows "responseError (unauthorized r) s = (s\<lparr>isRefreshing := True\<rparr>, AwaitGetItem e)"
    and "park waiters (s\<lparr>isRefreshing := True\<rparr>) = s1"
    and "resume_getItem e s1 = (s1, AwaitRefresh e, [Request (refreshAuthToken tok)])"
    and "resume_refresh e (Inr access) s1 = (s1, AwaitSetItem e access, [])"
    and "resume_setItem e access s1 =
           (s\<lparr>asyncStorage := (asyncStorage s)(TOKEN_KEY \<mapsto> access)\<rparr>,
            Reissued (r\<lparr>req_retry := True\<rparr>),
            map WaiterResolved waiters @ [Request (r\<lparr>req_retry := True\<rparr>)])"
    and "resume_refresh e (Inl refreshError) s1 =
           (s\<lparr>isRefreshing := True\<rparr>, AwaitLogout e refreshError,
            map (\<lambda>w. WaiterRejected w refreshError) waiters)"
    and "resume_logout e refreshError (s\<lparr>isRefreshing := True\<rparr>) = (s, Rejected refreshError, [])"
proof -
  show "responseError (unauthorized r) s = (s\<lparr>isRefreshing := True\<rparr>, AwaitGetItem e)"
    using assms(1,3) by (simp add: responseError_def unauthorized_def e_def Let_def)
  show "park waiters (s\<lparr>isRefreshing := True\<rparr>) = s1"
    using park_queue [of "s\<lparr>isRefreshing := True\<rparr>" waiters] assms(2,4) by (simp add: s1_def)
  show "resume_getItem e s1 = (s1, AwaitRefresh e, [Request (refreshAuthToken tok)])"
    using assms(5,6) by (simp add: resume_getItem_def s1_def)
  show "resume_refresh e (Inr access) s1 = (s1, AwaitSetItem e access, [])"
    by (simp add: resume_refresh_def)
  show "resume_setItem e access s1 =
           (s\<lparr>asyncStorage := (asyncStorage s)(TOKEN_KEY \<mapsto> access)\<rparr>,
            Reissued (r\<lparr>req_retry := True\<rparr>),
            map WaiterResolved waiters @ [Request (r\<lparr>req_retry := True\<rparr>)])"
    using assms(1,2)
    by (simp add: resume_setItem_def processQueue_def s1_def e_def unauthorized_def)
  show "resume_refresh e (Inl refreshError) s1 =
           (s\<lparr>isRefreshing := True\<rparr>, AwaitLogout e refreshError,
            map (\<lambda>w. WaiterRejected w refreshError) waiters)"
    using assms(2) by (simp add: resume_refresh_def processQueue_def logout_start_def s1_def)
  show "resume_logout e refreshError (s\<lparr>isRefreshing := True\<rparr>) = (s, Rejected refreshError, [])"
    using assms(1) by (simp add: resume_logout_def)
qed

text \<open>A refresh request answered 401 goes through the same interceptor: the flag is set,
  so the request is queued behind the refresh it is itself part of.\<close>

lemma refresh_answered_401:
  "resume_getItem (unauthorized (reqA\<lparr>req_retry := True\<rparr>)) (signed_in\<lparr>isRefreshing := True\<rparr>) =
     (signed_in\<lparr>isRefreshing := True\<rparr>, AwaitRefresh (unauthorized (reqA\<lparr>req_retry := True\<rparr>)),
      [Request (refreshAuthToken ''refresh'')]) \<and>
   responseError (unauthorized (refreshAuthToken ''refresh'')) (signed_in\<lparr>isRefreshing := True\<rparr>) =
     (signed_in\<lparr>isRefreshing := True, failedQueue := [refreshAuthToken ''refresh'']\<rparr>, InQueue)"
  by (simp add: resume_getItem_def responseError_def unauthorized_def refreshAuthToken_def
      signed_in_def REFRESH_TOKEN_KEY_def TOKEN_KEY_def USER_DATA_KEY_def Let_def)

subsection \<open>Concurrent 401 answers\<close>

text \<open>
  C1, evaluated where it fails. The store holds no refresh token; three requests are
  answered 401. The first sets \<open>isRefreshing\<close> and awaits the read of the refresh token,
  the other two are queued meanwhile. The read yields nothing: no refresh request is sent,
  the flag is cleared, the first caller is rejected with its 401 error, and the two waiters
  stay in \<open>failedQueue\<close>, neither sent again nor rejected.
\<close>

theorem refresh_without_token_strands_waiters:
  "responseError (unauthorized reqA) no_credentials =
     (no_credentials\<lparr>isRefreshing := True\<rparr>, AwaitGetItem (unauthorized (reqA\<lparr>req_retry := True\<rparr>))) \<and>
   responseError (unauthorized reqB) (no_credentials\<lparr>isRefreshing := True\<rparr>) =
     (no_credentials\<lparr>isRefreshing := True, failedQueue := [reqB]\<rparr>, InQueue) \<and>
   responseError (unauthorized reqC) (no_credentials\<lparr>isRefreshing := True, failedQueue := [reqB]\<rparr>) =
     (no_credentials\<lparr>isRefreshing := True, failedQueue := [reqB, reqC]\<rparr>, InQueue) \<and>
   resume_getItem (unauthorized (reqA\<lparr>req_retry := True\<rparr>))
       (no_credentials\<lparr>isRefreshing := True, failedQueue := [reqB, reqC]\<rparr>) =
     (no_credentials\<lparr>failedQueue := [reqB, reqC]\<rparr>,
      Rejected (unauthorized (reqA\<lparr>req_retry := True\<rparr>)), [])"
  by (simp add: responseError_def resume_getItem_def unauthorized_def reqA_def reqB_def reqC_def
      no_credentials_def REFRESH_TOKEN_KEY_def Let_def)

subsection \<open>The \<open>_retry\<close> marker\<close>




subsection \<open>\<open>logout\<close>\<close>

text \<open>
  C7, evaluated where it fails. The store holds an expired access token, a refresh token and
  the user. A request is answered 401 and leads a refresh; the refresh request is answered
  500, so the \<open>catch\<close> block runs \<open>processQueue\<close> and calls \<open>logout\<close>, with
  \<open>isRefreshing\<close> still set, since \<open>finally\<close> comes after. \<open>logout\<close> finds the token
  and sends its request, which is answered 401: the interceptor puts it into
  \<open>failedQueue\<close>. \<open>logout\<close> stays suspended before \<open>multiRemove\<close>, and the store still
  holds all three items. Only \<open>processQueue\<close> settles a queued request, and it is called
  by the leading handler alone, which awaits this \<open>logout\<close>; by
  \<open>answered_while_refreshing\<close> no answer to any other request clears the flag, the
  queue or the store.
\<close>

theorem logout_in_catch_parked:
  "responseError (unauthorized reqA) signed_in =
     (refreshing, AwaitGetItem (unauthorized (reqA\<lparr>req_retry := True\<rparr>))) \<and>
   resume_getItem (unauthorized (reqA\<lparr>req_retry := True\<rparr>)) refreshing =
     (refreshing, AwaitRefresh (unauthorized (reqA\<lparr>req_retry := True\<rparr>)),
      [Request (refreshAuthToken ''refresh'')]) \<and>
   responseError refresh_failed refreshing = (refreshing, Rejected refresh_failed) \<and>
   resume_refresh (unauthorized (reqA\<lparr>req_retry := True\<rparr>)) (Inl refresh_failed) refreshing =
     (refreshing, AwaitLogout (unauthorized (reqA\<lparr>req_retry := True\<rparr>)) refresh_failed, []) \<and>
   logout_start refreshing = (refreshing, LogoutAwaitGetItem, []) \<and>
   logout_resume_getItem refreshing = (refreshing, LogoutAwaitPost, [Request logout_request]) \<and>
   responseError (unauthorized logout_request) refreshing =
     (refreshing\<lparr>failedQueue := [logout_request]\<rparr>, InQueue) \<and>
   isRefreshing (refreshing\<lparr>failedQueue := [logout_request]\<rparr>) \<and>
   asyncStorage (refreshing\<lparr>failedQueue := [logout_request]\<rparr>) TOKEN_KEY = Some ''expired'' \<and>
   asyncStorage (refreshing\<lparr>failedQueue := [logout_request]\<rparr>) REFRESH_TOKEN_KEY = Some ''refresh'' \<and>
   asyncStorage (refreshing\<lparr>failedQueue := [logout_request]\<rparr>) USER_DATA_KEY = Some ''user''"
proof -
  have q: "failedQueue signed_in = []" "\<not> isRefreshing signed_in"
    by (simp_all add: signed_in_def)
  have 1: "responseError (unauthorized reqA) signed_in =
     (refreshing, AwaitGetItem (unauthorized (reqA\<lparr>req_retry := True\<rparr>)))"
    using q by (simp add: responseError_def unauthorized_def reqA_def refreshing_def Let_def)
  have 2: "resume_getItem (unauthorized (reqA\<lparr>req_retry := True\<rparr>)) refreshing =
     (refreshing, AwaitRefresh (unauthorized (reqA\<lparr>req_retry := True\<rparr>)),
      [Request (refreshAuthToken ''refresh'')])"
    using store_signed_in by (simp add: resume_getItem_def refreshing_def)
  have 3: "responseError refresh_failed refreshing = (refreshing, Rejected refresh_failed)"
    by (simp add: responseError_def refresh_failed_def Let_def)
  have 4: "resume_refresh (unauthorized (reqA\<lparr>req_retry := True\<rparr>)) (Inl refresh_failed) refreshing =
     (refreshing, AwaitLogout (unauthorized (reqA\<lparr>req_retry := True\<rparr>)) refresh_failed, [])"
    using q by (simp add: resume_refresh_def processQueue_def logout_start_def refreshing_def)
  have 5: "logout_start refreshing = (refreshing, LogoutAwaitGetItem, [])"
    by (simp add: logout_start_def)
  have 6: "logout_resume_getItem refreshing = (refreshing, LogoutAwaitPost, [Request logout_request])"
    using store_signed_in by (simp add: logout_resume_getItem_def falsy_def refreshing_def)
  have 7: "responseError (unauthorized logout_request) refreshing =
     (refreshing\<lparr>failedQueue := [logout_request]\<rparr>, InQueue)"
    using q by (simp add: responseError_def unauthorized_def logout_request_def refreshing_def Let_def)
  show ?thesis
    using 1 2 3 4 5 6 7 store_signed_in by (simp add: refreshing_def)
qed

end
